theory Spec2Isabelle
  imports Complex_Main
begin

section \<open>Data model\<close>

text \<open>
  Instants are JavaScript \<open>Date\<close> values: integer milliseconds since the epoch.
  The rows are those of the tables \<open>User\<close>, \<open>FoodItem\<close> and \<open>NotificationLog\<close>
  (columns the notification service never reads are left out).  The row id of a
  \<open>NotificationLog\<close> row, a \<open>uuid()\<close> default in the schema, is drawn from a counter.
\<close>

type_synonym instant = int

record User =
  id_User :: string
  pushToken :: "string option"

record FoodItem =
  id_FoodItem :: string
  name_FoodItem :: string
  expirationDate :: instant
  userId :: string

record NotificationLog =
  id_NotificationLog :: nat
  foodItemId :: string
  type_NotificationLog :: string
  sentAt :: instant

record ExpoNotification =
  to_ExpoNotification :: string
  title :: string
  body :: string
  data_foodItemId :: string

record Database =
  users :: "User list"
  foodItems :: "FoodItem list"

text \<open>
  What \<open>fetch\<close> to the push gateway can do: resolve with an OK response, resolve with a
  non-OK response whose body can be read, resolve with a non-OK response whose body cannot
  be read, or reject (network failure).
\<close>

datatype fetch_outcome = HttpOk | HttpNotOk string | HttpNotOkBodyFails | FetchThrows

datatype exn = FetchFailed | BodyReadFailed | UniqueConstraintViolation

datatype console_line = FailedToSend string | ErrorSending exn | CronError exn

text \<open>
  The state a run works on: the \<open>NotificationLog\<close> table with its id counter, the calls
  made to the push gateway with what each one came to, and the lines written with
  \<open>console.error\<close>.
\<close>

record world =
  logs :: "NotificationLog list"
  nextId :: nat
  outbox :: "(ExpoNotification \<times> fetch_outcome) list"
  console :: "console_line list"

text \<open>
  The gateway is an oracle: the outcome of the \<open>n\<close>-th call (counted over the whole
  history) for a given payload.  A race oracle says for which pairs a concurrent run
  records the pair while this run awaits the gateway.
\<close>

type_synonym gateway = "nat \<Rightarrow> ExpoNotification \<Rightarrow> fetch_outcome"
type_synonym race = "string \<Rightarrow> string \<Rightarrow> bool"

definition no_race :: race where
  "no_race = (\<lambda>fid ty. False)"

section \<open>Date arithmetic\<close>

definition msPerDay :: int where
  "msPerDay = 1000 * 60 * 60 * 24"

text \<open>
  \<open>d.setHours(0, 0, 0, 0)\<close> in a zone whose local time is UTC plus \<open>tz\<close> milliseconds
  (a fixed offset): the local midnight at or before the instant.
\<close>

definition setHours0 :: "int \<Rightarrow> instant \<Rightarrow> instant" where
  "setHours0 tz t = t - (t + tz) mod msPerDay"

text \<open>\<open>d.setDate(d.getDate() + n)\<close> in the same zone.\<close>

definition addDays :: "instant \<Rightarrow> int \<Rightarrow> instant" where
  "addDays t n = t + n * msPerDay"

text \<open>\<open>Math.ceil(a / b)\<close> on integers, for a positive divisor.\<close>

definition ceilDiv :: "int \<Rightarrow> int \<Rightarrow> int" where
  "ceilDiv a b = - ((- a) div b)"


text \<open>The same computation as the scheduler's loop body writes it, \<open>today\<close> being normalised already.\<close>

definition daysUntilExpiration :: "int \<Rightarrow> instant \<Rightarrow> FoodItem \<Rightarrow> int" where
  "daysUntilExpiration tz today item =
     (let expirationDate' = setHours0 tz (expirationDate item)
      in ceilDiv (expirationDate' - today) msPerDay)"


section \<open>The notification log\<close>

definition logKey :: "NotificationLog \<Rightarrow> string \<times> string" where
  "logKey r = (foodItemId r, type_NotificationLog r)"

text \<open>\<open>prisma.notificationLog.findUnique\<close> on the compound key \<open>foodItemId_type\<close>.\<close>

definition findUnique :: "NotificationLog list \<Rightarrow> string \<Rightarrow> string \<Rightarrow> NotificationLog option" where
  "findUnique L fid ty = find (\<lambda>r. foodItemId r = fid \<and> type_NotificationLog r = ty) L"

text \<open>
  \<open>prisma.notificationLog.create\<close>: the insert is refused by the unique index
  \<open>NotificationLog_foodItemId_type_key\<close> when a row with the pair is there, and the
  client throws.  The column \<open>sentAt\<close>, a \<open>CURRENT_TIMESTAMP\<close> default, gets the clock
  reading of the run.
\<close>

definition notificationLog_create ::
  "instant \<Rightarrow> string \<Rightarrow> string \<Rightarrow> world \<Rightarrow> (exn + NotificationLog) \<times> world" where
  "notificationLog_create now fid ty w =
     (if (fid, ty) \<in> set (map logKey (logs w)) then (Inl UniqueConstraintViolation, w)
      else let r = \<lparr>id_NotificationLog = nextId w, foodItemId = fid,
                     type_NotificationLog = ty, sentAt = now\<rparr>
           in (Inr r, w\<lparr>logs := logs w @ [r], nextId := Suc (nextId w)\<rparr>))"

text \<open>A concurrent run recording the pair, through the same storage operation.\<close>

definition concurrentRecord :: "race \<Rightarrow> instant \<Rightarrow> string \<Rightarrow> string \<Rightarrow> world \<Rightarrow> world" where
  "concurrentRecord rc now fid ty w =
     (if rc fid ty then snd (notificationLog_create now fid ty w) else w)"

section \<open>The dispatcher\<close>

text \<open>The \<open>try\<close> block of \<open>sendPushNotification\<close>.\<close>

definition sendPushNotification_try ::
  "gateway \<Rightarrow> ExpoNotification \<Rightarrow> world \<Rightarrow> (exn + unit) \<times> world" where
  "sendPushNotification_try gw notification w =
     (let response = gw (length (outbox w)) notification;
          w1 = w\<lparr>outbox := outbox w @ [(notification, response)]\<rparr>
      in case response of
           FetchThrows \<Rightarrow> (Inl FetchFailed, w1)
         | HttpOk \<Rightarrow> (Inr (), w1)
         | HttpNotOk txt \<Rightarrow> (Inr (), w1\<lparr>console := console w1 @ [FailedToSend txt]\<rparr>)
         | HttpNotOkBodyFails \<Rightarrow> (Inl BodyReadFailed, w1))"

definition sendPushNotification ::
  "gateway \<Rightarrow> ExpoNotification \<Rightarrow> world \<Rightarrow> (exn + unit) \<times> world" where
  "sendPushNotification gw notification w =
     (case sendPushNotification_try gw notification w of
        (Inl error, w1) \<Rightarrow> (Inr (), w1\<lparr>console := console w1 @ [ErrorSending error]\<rparr>)
      | (Inr u, w1) \<Rightarrow> (Inr u, w1))"

section \<open>The scheduler\<close>

text \<open>The \<open>if\<close> chain of the loop body: notification type, title and body for a day offset.\<close>

definition selectNotification :: "int \<Rightarrow> string \<Rightarrow> (string \<times> string \<times> string) option" where
  "selectNotification d nm =
     (if d = 0 then
        Some (''expiry_day'', ''Food Expiring Today!'',
              nm @ '' expires today. Use it before it goes bad!'')
      else if d = 1 then
        Some (''one_day'', ''Food Expiring Tomorrow'',
              nm @ '' expires tomorrow. Plan to use it soon!'')
      else if d = 3 then
        Some (''three_day'', ''Food Expiring Soon'', nm @ '' expires in 3 days.'')
      else None)"

text \<open>
  The body of the inner loop, for one item of a user whose token is \<open>tok\<close>.  Between the
  awaited dispatch and the awaited \<open>create\<close> another run may write to the log; that is
  where \<open>concurrentRecord\<close> stands.  Under \<open>no_race\<close> it does nothing and the body is
  the source's, statement by statement.
\<close>

definition processItem ::
  "int \<Rightarrow> gateway \<Rightarrow> race \<Rightarrow> instant \<Rightarrow> instant \<Rightarrow> string \<Rightarrow> FoodItem \<Rightarrow> world
     \<Rightarrow> (exn + unit) \<times> world" where
  "processItem tz gw rc now today tok item w =
     (case selectNotification (daysUntilExpiration tz today item) (name_FoodItem item) of
        None \<Rightarrow> (Inr (), w)
      | Some (notificationType, title', body') \<Rightarrow>
          (case findUnique (logs w) (id_FoodItem item) notificationType of
             Some existingLog \<Rightarrow> (Inr (), w)
           | None \<Rightarrow>
               (case sendPushNotification gw
                       \<lparr>to_ExpoNotification = tok, title = title', body = body',
                        data_foodItemId = id_FoodItem item\<rparr> w of
                  (Inl e, w1) \<Rightarrow> (Inl e, w1)
                | (Inr u, w1) \<Rightarrow>
                    (case notificationLog_create now (id_FoodItem item) notificationType
                            (concurrentRecord rc now (id_FoodItem item) notificationType w1) of
                       (Inl e, w2) \<Rightarrow> (Inl e, w2)
                     | (Inr r, w2) \<Rightarrow> (Inr (), w2)))))"

fun forItems ::
  "int \<Rightarrow> gateway \<Rightarrow> race \<Rightarrow> instant \<Rightarrow> instant \<Rightarrow> string \<Rightarrow> FoodItem list \<Rightarrow> world
     \<Rightarrow> (exn + unit) \<times> world" where
  "forItems tz gw rc now today tok [] w = (Inr (), w)"
| "forItems tz gw rc now today tok (item # items) w =
     (case processItem tz gw rc now today tok item w of
        (Inl e, w1) \<Rightarrow> (Inl e, w1)
      | (Inr u, w1) \<Rightarrow> forItems tz gw rc now today tok items w1)"

text \<open>The outer loop; \<open>!user.pushToken\<close> holds of \<open>null\<close> and of the empty string.\<close>

fun forUsers ::
  "int \<Rightarrow> gateway \<Rightarrow> race \<Rightarrow> instant \<Rightarrow> instant \<Rightarrow> (User \<times> FoodItem list) list \<Rightarrow> world
     \<Rightarrow> (exn + unit) \<times> world" where
  "forUsers tz gw rc now today [] w = (Inr (), w)"
| "forUsers tz gw rc now today ((user, items) # rest) w =
     (case pushToken user of
        None \<Rightarrow> forUsers tz gw rc now today rest w
      | Some tok \<Rightarrow>
          if tok = [] then forUsers tz gw rc now today rest w
          else (case forItems tz gw rc now today tok items w of
                  (Inl e, w1) \<Rightarrow> (Inl e, w1)
                | (Inr u, w1) \<Rightarrow> forUsers tz gw rc now today rest w1))"

text \<open>
  \<open>prisma.user.findMany\<close> with \<open>pushToken: { not: null }\<close>, including each user's food
  items whose expiration date is between \<open>gte\<close> and \<open>lte\<close>.
\<close>

definition findMany :: "Database \<Rightarrow> instant \<Rightarrow> instant \<Rightarrow> (User \<times> FoodItem list) list" where
  "findMany db gte lte =
     map (\<lambda>u. (u, filter (\<lambda>i. userId i = id_User u \<and> gte \<le> expirationDate i
                                \<and> expirationDate i \<le> lte) (foodItems db)))
         (filter (\<lambda>u. pushToken u \<noteq> None) (users db))"

definition checkAndSendExpirationNotifications ::
  "int \<Rightarrow> gateway \<Rightarrow> race \<Rightarrow> instant \<Rightarrow> Database \<Rightarrow> world \<Rightarrow> (exn + unit) \<times> world" where
  "checkAndSendExpirationNotifications tz gw rc now db w =
     (let today = setHours0 tz now;
          threeDaysFromNow = addDays today 3;
          oneDayFromNow = addDays today 1;
          users' = findMany db today threeDaysFromNow
      in forUsers tz gw rc now today users' w)"


definition cronCallback ::
  "int \<Rightarrow> gateway \<Rightarrow> race \<Rightarrow> instant \<Rightarrow> Database \<Rightarrow> world \<Rightarrow> (exn + unit) \<times> world" where
  "cronCallback tz gw rc now db w =
     (case checkAndSendExpirationNotifications tz gw rc now db w of
        (Inl error, w1) \<Rightarrow> (Inr (), w1\<lparr>console := console w1 @ [CronError error]\<rparr>)
      | (Inr u, w1) \<Rightarrow> (Inr u, w1))"


section \<open>Notions used in the statements\<close>

text \<open>
  The (token, item) pairs on which the loop body runs, in order: the items the query
  includes, of the users the outer loop does not skip.
\<close>

definition consideredItems :: "int \<Rightarrow> instant \<Rightarrow> Database \<Rightarrow> (string \<times> FoodItem) list" where
  "consideredItems tz now db =
     concat (map (\<lambda>(u, items). case pushToken u of
                                   None \<Rightarrow> []
                                 | Some tok \<Rightarrow> if tok = [] then [] else map (Pair tok) items)
                 (findMany db (setHours0 tz now) (addDays (setHours0 tz now) 3)))"

text \<open>The loop body run over a list of (token, item) pairs, stopping at the first exception.\<close>

fun forPairs ::
  "int \<Rightarrow> gateway \<Rightarrow> race \<Rightarrow> instant \<Rightarrow> instant \<Rightarrow> (string \<times> FoodItem) list \<Rightarrow> world
     \<Rightarrow> (exn + unit) \<times> world" where
  "forPairs tz gw rc now today [] w = (Inr (), w)"
| "forPairs tz gw rc now today ((tok, item) # rest) w =
     (case processItem tz gw rc now today tok item w of
        (Inl e, w1) \<Rightarrow> (Inl e, w1)
      | (Inr u, w1) \<Rightarrow> forPairs tz gw rc now today rest w1)"

text \<open>How many log rows carry a pair, and how many gateway calls were made for an item under a title.\<close>

definition logCount :: "world \<Rightarrow> string \<Rightarrow> string \<Rightarrow> nat" where
  "logCount w fid ty = length (filter (\<lambda>r. logKey r = (fid, ty)) (logs w))"

definition dispatchCount :: "world \<Rightarrow> string \<Rightarrow> string \<Rightarrow> nat" where
  "dispatchCount w fid ttl =
     length (filter (\<lambda>c. data_foodItemId (fst c) = fid \<and> title (fst c) = ttl) (outbox w))"

text \<open>The title under which a notification type is sent (the templates of the loop body).\<close>

definition titleOf :: "string \<Rightarrow> string" where
  "titleOf ty =
     (if ty = ''expiry_day'' then ''Food Expiring Today!''
      else if ty = ''one_day'' then ''Food Expiring Tomorrow''
      else if ty = ''three_day'' then ''Food Expiring Soon''
      else [])"

definition emptyWorld :: world where
  "emptyWorld = \<lparr>logs = [], nextId = 0, outbox = [], console = []\<rparr>"

text \<open>
  The states of the system: from the empty tables, any client may call the storage
  operation directly, and any run may happen, alone or raced by a concurrent one.
\<close>

inductive reachable :: "world \<Rightarrow> bool" where
  reachable_init: "reachable emptyWorld"
| reachable_create: "reachable w \<Longrightarrow> reachable (snd (notificationLog_create now fid ty w))"
| reachable_send: "reachable w \<Longrightarrow> reachable (snd (sendPushNotification gw notification w))"
| reachable_run:
    "reachable w \<Longrightarrow> reachable (snd (checkAndSendExpirationNotifications tz gw rc now db w))"
| reachable_cron: "reachable w \<Longrightarrow> reachable (snd (cronCallback tz gw rc now db w))"

section \<open>Proof devices\<close>

text \<open>
  Between two states of a run without interference: log rows only accumulate, a pair gets
  at most one row, and each new row goes with one gateway call.
\<close>

definition paired :: "world \<Rightarrow> world \<Rightarrow> bool" where
  "paired w w' \<longleftrightarrow>
     (\<forall>fid ty. logCount w fid ty \<le> logCount w' fid ty
        \<and> logCount w' fid ty \<le> max 1 (logCount w fid ty)
        \<and> logCount w' fid ty + dispatchCount w fid (titleOf ty)
            = logCount w fid ty + dispatchCount w' fid (titleOf ty))"

text \<open>What the loop body does when no concurrent run interferes.\<close>

definition recorded :: "instant \<Rightarrow> string \<Rightarrow> string \<Rightarrow> world \<Rightarrow> world" where
  "recorded now fid ty w =
     w\<lparr>logs := logs w @ [\<lparr>id_NotificationLog = nextId w, foodItemId = fid,
                           type_NotificationLog = ty, sentAt = now\<rparr>],
       nextId := Suc (nextId w)\<rparr>"

text \<open>Every pair of the list whose day offset selects a notification has a log row.\<close>

definition allLogged :: "int \<Rightarrow> instant \<Rightarrow> (string \<times> FoodItem) list \<Rightarrow> world \<Rightarrow> bool" where
  "allLogged tz today xs w \<longleftrightarrow>
     (\<forall>(tok, item) \<in> set xs. \<forall>ty ttl bdy.
        selectNotification (daysUntilExpiration tz today item) (name_FoodItem item)
          = Some (ty, ttl, bdy) \<longrightarrow> 1 \<le> logCount w (id_FoodItem item) ty)"

section \<open>A concrete day\<close>

text \<open>
  The reference date is 2024-06-10 (09:00 UTC, zone offset 0); item A expires on 2024-06-13,
  B on 2024-06-11, C on 2024-06-10 and D on 2024-06-12.
\<close>

definition demoNow :: instant where "demoNow = 1718010000000"

definition demoUser :: User where
  "demoUser = \<lparr>id_User = ''temp-user-id'', pushToken = Some ''ExponentPushToken[x]''\<rparr>"

definition itemA :: FoodItem where
  "itemA = \<lparr>id_FoodItem = ''A'', name_FoodItem = ''Milk'', expirationDate = 1718236800000,
            userId = ''temp-user-id''\<rparr>"
definition itemB :: FoodItem where
  "itemB = \<lparr>id_FoodItem = ''B'', name_FoodItem = ''Eggs'', expirationDate = 1718064000000,
            userId = ''temp-user-id''\<rparr>"
definition itemC :: FoodItem where
  "itemC = \<lparr>id_FoodItem = ''C'', name_FoodItem = ''Ham'', expirationDate = 1717977600000,
            userId = ''temp-user-id''\<rparr>"
definition itemD :: FoodItem where
  "itemD = \<lparr>id_FoodItem = ''D'', name_FoodItem = ''Rice'', expirationDate = 1718150400000,
            userId = ''temp-user-id''\<rparr>"

definition demoDb :: Database where
  "demoDb = \<lparr>users = [demoUser], foodItems = [itemA, itemB, itemC, itemD]\<rparr>"

definition secondFails :: gateway where
  "secondFails = (\<lambda>n p. if n = 1 then FetchThrows else HttpOk)"



definition demoToken :: string where
  "demoToken = ''ExponentPushToken[x]''"




section \<open>Date arithmetic: proofs\<close>









section \<open>Scheduler: proofs\<close>

subsection \<open>Flattening the loops\<close>

lemma forPairs_append:
  "forPairs tz gw rc now today (xs @ ys) w =
     (case forPairs tz gw rc now today xs w of
        (Inl e, w1) \<Rightarrow> (Inl e, w1)
      | (Inr u, w1) \<Rightarrow> forPairs tz gw rc now today ys w1)"
  by (induction xs arbitrary: w) (auto split: prod.splits sum.splits)

lemma forItems_forPairs:
  "forItems tz gw rc now today tok items w = forPairs tz gw rc now today (map (Pair tok) items) w"
  by (induction items arbitrary: w) (auto split: prod.splits sum.splits)

lemma forUsers_forPairs:
  "forUsers tz gw rc now today us w =
     forPairs tz gw rc now today
       (concat (map (\<lambda>(u, items). case pushToken u of
                                   None \<Rightarrow> []
                                 | Some tok \<Rightarrow> if tok = [] then [] else map (Pair tok) items) us)) w"
proof (induction us arbitrary: w)
  case Nil
  then show ?case by simp
next
  case (Cons p us)
  obtain u items where p: "p = (u, items)" by (cases p)
  show ?case
    using Cons.IH
    by (simp add: p forPairs_append forItems_forPairs split: option.splits prod.splits sum.splits)
qed

lemma run_forPairs:
  "checkAndSendExpirationNotifications tz gw rc now db w =
     forPairs tz gw rc now (setHours0 tz now) (consideredItems tz now db) w"
  by (simp add: checkAndSendExpirationNotifications_def consideredItems_def Let_def
      forUsers_forPairs)

subsection \<open>The dispatcher\<close>

lemma sendPushNotification_eq:
  "sendPushNotification gw n w =
     (Inr (), w\<lparr>outbox := outbox w @ [(n, gw (length (outbox w)) n)],
               console := console w @
                 (case gw (length (outbox w)) n of
                    HttpOk \<Rightarrow> [] | HttpNotOk txt \<Rightarrow> [FailedToSend txt]
                  | HttpNotOkBodyFails \<Rightarrow> [ErrorSending BodyReadFailed]
                  | FetchThrows \<Rightarrow> [ErrorSending FetchFailed])\<rparr>)"
  by (cases "gw (length (outbox w)) n")
     (simp_all add: sendPushNotification_def sendPushNotification_try_def Let_def)

text \<open>
  C10: whatever the gateway does (an OK response, a non-OK response, a body that cannot be
  read, a network exception), \<open>sendPushNotification\<close> resolves with no value and never
  rejects; the value its caller gets is the same under any two gateways, and the
  notification log is left as it was, so the caller cannot tell a failed dispatch from a
  successful one.
\<close>

theorem sendPushNotification_never_rejects:
  "fst (sendPushNotification gw notification w) = Inr ()
   \<and> fst (sendPushNotification gw notification w) = fst (sendPushNotification gw' notification w)
   \<and> logs (snd (sendPushNotification gw notification w)) = logs w
   \<and> nextId (snd (sendPushNotification gw notification w)) = nextId w"
  by (simp add: sendPushNotification_eq)

subsection \<open>Runs without interference\<close>

lemma paired_refl: "paired w w"
  by (simp add: paired_def)

lemma paired_trans: "paired w w1 \<Longrightarrow> paired w1 w2 \<Longrightarrow> paired w w2"
  unfolding paired_def
proof (intro allI)
  fix fid ty
  assume a: "\<forall>fid ty. logCount w fid ty \<le> logCount w1 fid ty
        \<and> logCount w1 fid ty \<le> max 1 (logCount w fid ty)
        \<and> logCount w1 fid ty + dispatchCount w fid (titleOf ty)
            = logCount w fid ty + dispatchCount w1 fid (titleOf ty)"
    and b: "\<forall>fid ty. logCount w1 fid ty \<le> logCount w2 fid ty
        \<and> logCount w2 fid ty \<le> max 1 (logCount w1 fid ty)
        \<and> logCount w2 fid ty + dispatchCount w1 fid (titleOf ty)
            = logCount w1 fid ty + dispatchCount w2 fid (titleOf ty)"
  from a have a': "logCount w fid ty \<le> logCount w1 fid ty"
      "logCount w1 fid ty \<le> max 1 (logCount w fid ty)"
      "logCount w1 fid ty + dispatchCount w fid (titleOf ty)
            = logCount w fid ty + dispatchCount w1 fid (titleOf ty)"
    by blast+
  from b have b': "logCount w1 fid ty \<le> logCount w2 fid ty"
      "logCount w2 fid ty \<le> max 1 (logCount w1 fid ty)"
      "logCount w2 fid ty + dispatchCount w1 fid (titleOf ty)
            = logCount w1 fid ty + dispatchCount w2 fid (titleOf ty)"
    by blast+
  show "logCount w fid ty \<le> logCount w2 fid ty
        \<and> logCount w2 fid ty \<le> max 1 (logCount w fid ty)
        \<and> logCount w2 fid ty + dispatchCount w fid (titleOf ty)
            = logCount w fid ty + dispatchCount w2 fid (titleOf ty)"
    using a' b' by linarith
qed

lemma findUnique_None_iff:
  "findUnique L fid ty = None \<longleftrightarrow> (fid, ty) \<notin> set (map logKey L)"
  by (auto simp: findUnique_def find_None_iff logKey_def image_iff)

lemma logCount_zero_iff:
  "logCount w fid ty = 0 \<longleftrightarrow> (fid, ty) \<notin> set (map logKey (logs w))"
  by (force simp: logCount_def filter_empty_conv)

lemma logCount_zero_findUnique:
  "logCount w fid ty = 0 \<longleftrightarrow> findUnique (logs w) fid ty = None"
  by (simp add: logCount_zero_iff findUnique_None_iff)

lemma selectNotification_Some:
  "selectNotification d nm = Some (ty, ttl, bdy) \<Longrightarrow>
     ttl = titleOf ty \<and> ty \<in> {''expiry_day'', ''one_day'', ''three_day''}"
  by (auto simp: selectNotification_def titleOf_def split: if_splits)

lemma titleOf_inj:
  "ty \<in> {''expiry_day'', ''one_day'', ''three_day''} \<Longrightarrow> titleOf ty' = titleOf ty \<longleftrightarrow> ty' = ty"
  by (auto simp: titleOf_def split: if_splits)

lemma create_fresh:
  "(fid, ty) \<notin> set (map logKey (logs w)) \<Longrightarrow>
     notificationLog_create now fid ty w =
       (Inr \<lparr>id_NotificationLog = nextId w, foodItemId = fid,
             type_NotificationLog = ty, sentAt = now\<rparr>, recorded now fid ty w)"
  by (simp add: notificationLog_create_def recorded_def Let_def)

lemma create_present:
  "(fid, ty) \<in> set (map logKey (logs w)) \<Longrightarrow>
     notificationLog_create now fid ty w = (Inl UniqueConstraintViolation, w)"
  by (simp add: notificationLog_create_def)

lemma processItem_seq:
  "processItem tz gw no_race now today tok item w =
     (case selectNotification (daysUntilExpiration tz today item) (name_FoodItem item) of
        None \<Rightarrow> (Inr (), w)
      | Some (ty, ttl, bdy) \<Rightarrow>
          (case findUnique (logs w) (id_FoodItem item) ty of
             Some r \<Rightarrow> (Inr (), w)
           | None \<Rightarrow> (Inr (), recorded now (id_FoodItem item) ty
                (snd (sendPushNotification gw
                       \<lparr>to_ExpoNotification = tok, title = ttl, body = bdy,
                        data_foodItemId = id_FoodItem item\<rparr> w)))))"
proof (cases "selectNotification (daysUntilExpiration tz today item) (name_FoodItem item)")
  case None
  then show ?thesis by (simp add: processItem_def)
next
  case (Some p)
  obtain ty ttl bdy where p: "p = (ty, ttl, bdy)" by (cases p)
  note sel = Some [unfolded p]
  show ?thesis
  proof (cases "findUnique (logs w) (id_FoodItem item) ty")
    case (Some r)
    then show ?thesis using sel by (simp add: processItem_def)
  next
    case None
    then have "(id_FoodItem item, ty) \<notin> set (map logKey (logs w))"
      using findUnique_None_iff by blast
    then show ?thesis
      using sel None
      by (simp add: processItem_def no_race_def concurrentRecord_def sendPushNotification_eq
          create_fresh)
  qed
qed

lemma logCount_recorded:
  "logCount (recorded now fid ty w) f k = logCount w f k + (if (f, k) = (fid, ty) then 1 else 0)"
  by (auto simp: logCount_def recorded_def logKey_def)

lemma dispatchCount_recorded:
  "dispatchCount (recorded now fid ty w) f t = dispatchCount w f t"
  by (simp add: dispatchCount_def recorded_def)

lemma logCount_send:
  "logCount (snd (sendPushNotification gw n w)) f k = logCount w f k"
  by (simp add: logCount_def sendPushNotification_eq)

lemma dispatchCount_send:
  "dispatchCount (snd (sendPushNotification gw n w)) f t =
     dispatchCount w f t + (if data_foodItemId n = f \<and> title n = t then 1 else 0)"
  by (simp add: dispatchCount_def sendPushNotification_eq)

lemma processItem_seq_fst: "fst (processItem tz gw no_race now today tok item w) = Inr ()"
  by (simp add: processItem_seq split: option.splits prod.splits)

lemma processItem_seq_paired:
  "paired w (snd (processItem tz gw no_race now today tok item w))"
proof (cases "selectNotification (daysUntilExpiration tz today item) (name_FoodItem item)")
  case None
  then show ?thesis by (simp add: processItem_seq paired_refl)
next
  case (Some p)
  obtain ty ttl bdy where p: "p = (ty, ttl, bdy)" by (cases p)
  note sel = Some [unfolded p]
  have tt: "ttl = titleOf ty" and ki: "ty \<in> {''expiry_day'', ''one_day'', ''three_day''}"
    using selectNotification_Some [OF sel] by blast+
  show ?thesis
  proof (cases "findUnique (logs w) (id_FoodItem item) ty")
    case (Some r)
    then show ?thesis using sel by (simp add: processItem_seq paired_refl)
  next
    case None
    then have z: "logCount w (id_FoodItem item) ty = 0"
      by (simp add: logCount_zero_findUnique)
    define w' where "w' = snd (processItem tz gw no_race now today tok item w)"
    have lc: "logCount w' f k = logCount w f k + (if (f, k) = (id_FoodItem item, ty) then 1 else 0)"
      for f k
      by (simp add: w'_def processItem_seq sel None logCount_recorded logCount_send)
    have dc: "dispatchCount w' f (titleOf k)
                = dispatchCount w f (titleOf k) + (if (f, k) = (id_FoodItem item, ty) then 1 else 0)"
      for f k
      using titleOf_inj [OF ki, of k]
      by (auto simp: w'_def processItem_seq sel None dispatchCount_recorded dispatchCount_send tt)
    have "logCount w f k \<le> logCount w' f k
        \<and> logCount w' f k \<le> max 1 (logCount w f k)
        \<and> logCount w' f k + dispatchCount w f (titleOf k)
            = logCount w f k + dispatchCount w' f (titleOf k)" for f k
    proof (cases "(f, k) = (id_FoodItem item, ty)")
      case True
      then have "logCount w f k = 0" using z by simp
      then show ?thesis using True by (simp add: lc dc)
    next
      case False
      then have "logCount w' f k = logCount w f k"
        and "dispatchCount w' f (titleOf k) = dispatchCount w f (titleOf k)"
        using lc [of f k] dc [of f k] by auto
      then show ?thesis by simp
    qed
    then show ?thesis
      unfolding paired_def w'_def by blast
  qed
qed

lemma processItem_seq_logged:
  assumes "selectNotification (daysUntilExpiration tz today item) (name_FoodItem item)
             = Some (ty, ttl, bdy)"
  shows "1 \<le> logCount (snd (processItem tz gw no_race now today tok item w)) (id_FoodItem item) ty"
proof (cases "findUnique (logs w) (id_FoodItem item) ty")
  case None
  then show ?thesis
    using assms by (simp add: processItem_seq logCount_recorded)
next
  case (Some r)
  then have "findUnique (logs w) (id_FoodItem item) ty \<noteq> None"
    by simp
  then have "logCount w (id_FoodItem item) ty \<noteq> 0"
    by (simp add: logCount_zero_findUnique)
  then show ?thesis
    using assms Some by (simp add: processItem_seq)
qed


lemma paired_mono: "paired w w' \<Longrightarrow> logCount w fid ty \<le> logCount w' fid ty"
  by (simp add: paired_def)

lemma allLogged_paired: "allLogged tz today xs w \<Longrightarrow> paired w w' \<Longrightarrow> allLogged tz today xs w'"
  unfolding allLogged_def
  by (fastforce dest: paired_mono intro: order_trans)

lemma forPairs_seq_fst: "fst (forPairs tz gw no_race now today xs w) = Inr ()"
proof (induction xs arbitrary: w)
  case Nil
  then show ?case by simp
next
  case (Cons p xs)
  obtain tok item where p: "p = (tok, item)" by (cases p)
  obtain w1 where w1: "processItem tz gw no_race now today tok item w = (Inr (), w1)"
    using processItem_seq_fst [of tz gw now today tok item w]
    by (cases "processItem tz gw no_race now today tok item w") simp
  show ?case
    using Cons.IH [of w1] by (simp add: p w1)
qed

lemma forPairs_seq_Cons:
  "snd (forPairs tz gw no_race now today ((tok, item) # xs) w) =
     snd (forPairs tz gw no_race now today xs (snd (processItem tz gw no_race now today tok item w)))"
proof -
  obtain w1 where w1: "processItem tz gw no_race now today tok item w = (Inr (), w1)"
    using processItem_seq_fst [of tz gw now today tok item w]
    by (cases "processItem tz gw no_race now today tok item w") simp
  show ?thesis by (simp add: w1)
qed

lemma forPairs_seq_paired: "paired w (snd (forPairs tz gw no_race now today xs w))"
proof (induction xs arbitrary: w)
  case Nil
  then show ?case by (simp add: paired_refl)
next
  case (Cons p xs)
  obtain tok item where p: "p = (tok, item)" by (cases p)
  show ?case
    unfolding p forPairs_seq_Cons
    using processItem_seq_paired Cons.IH by (rule paired_trans)
qed

lemma forPairs_seq_logged:
  "allLogged tz today xs (snd (forPairs tz gw no_race now today xs w))"
proof (induction xs arbitrary: w)
  case Nil
  then show ?case by (simp add: allLogged_def)
next
  case (Cons p xs)
  obtain tok item where p: "p = (tok, item)" by (cases p)
  define w1 where "w1 = snd (processItem tz gw no_race now today tok item w)"
  define w2 where "w2 = snd (forPairs tz gw no_race now today xs w1)"
  have eq: "snd (forPairs tz gw no_race now today (p # xs) w) = w2"
    by (simp only: p forPairs_seq_Cons w1_def w2_def)
  have tl: "allLogged tz today xs w2"
    unfolding w2_def by (rule Cons.IH)
  have mono: "paired w1 w2"
    unfolding w2_def by (rule forPairs_seq_paired)
  have hd: "allLogged tz today [p] w1"
    unfolding allLogged_def p w1_def
    using processItem_seq_logged by auto
  have "allLogged tz today [p] w2"
    using hd mono by (rule allLogged_paired)
  then show ?case
    using tl unfolding eq by (simp add: allLogged_def)
qed


subsection \<open>Whole runs\<close>



lemma run_seq_fst: "fst (checkAndSendExpirationNotifications tz gw no_race now db w) = Inr ()"
  by (simp add: run_forPairs forPairs_seq_fst)

lemma run_seq_paired:
  "paired w (snd (checkAndSendExpirationNotifications tz gw no_race now db w))"
  by (simp add: run_forPairs forPairs_seq_paired)

lemma run_seq_logged:
  "allLogged tz (setHours0 tz now) (consideredItems tz now db)
     (snd (checkAndSendExpirationNotifications tz gw no_race now db w))"
  by (simp add: run_forPairs forPairs_seq_logged)




subsection \<open>Idempotence and failure handling\<close>

lemma distinct_logCount:
  assumes "distinct (map logKey (logs w))"
  shows "logCount w fid ty \<le> 1"
proof -
  have "distinct (map logKey L) \<Longrightarrow> length (filter (\<lambda>r. logKey r = k) L) \<le> 1" for L k
  proof (induction L)
    case Nil
    then show ?case by simp
  next
    case (Cons r L)
    show ?case
    proof (cases "logKey r = k")
      case True
      then have "k \<notin> logKey ` set L" using Cons.prems by auto
      then have "filter (\<lambda>r. logKey r = k) L = []"
        by (auto simp: filter_empty_conv)
      then show ?thesis using True by simp
    next
      case False
      then show ?thesis using Cons by simp
    qed
  qed
  then show ?thesis using assms by (simp add: logCount_def)
qed


lemma paired_fresh:
  assumes "paired w w'" and "logCount w fid ty = 0" and "1 \<le> logCount w' fid ty"
  shows "logCount w' fid ty = 1"
    and "dispatchCount w' fid (titleOf ty) = dispatchCount w fid (titleOf ty) + 1"
proof -
  have b: "logCount w' fid ty \<le> max 1 (logCount w fid ty)"
    and c: "logCount w' fid ty + dispatchCount w fid (titleOf ty)
            = logCount w fid ty + dispatchCount w' fid (titleOf ty)"
    using assms(1) unfolding paired_def by blast+
  show one: "logCount w' fid ty = 1" using b assms(2,3) by simp
  show "dispatchCount w' fid (titleOf ty) = dispatchCount w fid (titleOf ty) + 1"
    using c one assms(2) by linarith
qed



text \<open>
  C7: whatever the gateway answers to each call, a run that no concurrent run interferes
  with completes, and every eligible pair that had no log row is dispatched once and logged
  in that run.  In the witness the second of three eligible items fails, and the first and
  the third are dispatched and logged.
\<close>

theorem dispatch_failure_does_not_abort:
  "fst (checkAndSendExpirationNotifications tz gw no_race now db w) = Inr ()
   \<and> (\<forall>(tok, item) \<in> set (consideredItems tz now db). \<forall>ty ttl bdy.
         selectNotification (daysUntilExpiration tz (setHours0 tz now) item) (name_FoodItem item)
           = Some (ty, ttl, bdy) \<longrightarrow>
         logCount w (id_FoodItem item) ty = 0 \<longrightarrow>
         logCount (snd (checkAndSendExpirationNotifications tz gw no_race now db w))
             (id_FoodItem item) ty = 1
         \<and> dispatchCount (snd (checkAndSendExpirationNotifications tz gw no_race now db w))
             (id_FoodItem item) ttl = dispatchCount w (id_FoodItem item) ttl + 1)"
proof -
  define w' where "w' = snd (checkAndSendExpirationNotifications tz gw no_race now db w)"
  have pr: "paired w w'"
    unfolding w'_def by (rule run_seq_paired)
  have al: "allLogged tz (setHours0 tz now) (consideredItems tz now db) w'"
    unfolding w'_def by (rule run_seq_logged)
  have "logCount w' (id_FoodItem item) k = 1
          \<and> dispatchCount w' (id_FoodItem item) ttl = dispatchCount w (id_FoodItem item) ttl + 1"
    if mem: "(tok, item) \<in> set (consideredItems tz now db)"
      and sel: "selectNotification (daysUntilExpiration tz (setHours0 tz now) item)
                  (name_FoodItem item) = Some (k, ttl, bdy)"
      and z: "logCount w (id_FoodItem item) k = 0"
    for tok item k ttl bdy
  proof -
    have ge: "1 \<le> logCount w' (id_FoodItem item) k"
      using al mem sel unfolding allLogged_def by blast
    have "ttl = titleOf k"
      using selectNotification_Some [OF sel] by simp
    then show ?thesis
      using paired_fresh [OF pr z ge] by simp
  qed
  then show ?thesis
    unfolding w'_def [symmetric] using run_seq_fst [of tz gw now db w] by blast
qed

theorem dispatch_failure_does_not_abort_witness:
  "(demoToken, itemA) \<in> set (consideredItems 0 demoNow demoDb)
   \<and> (demoToken, itemC) \<in> set (consideredItems 0 demoNow demoDb)
   \<and> map snd (outbox (snd (checkAndSendExpirationNotifications 0 secondFails no_race demoNow
                              demoDb emptyWorld))) = [HttpOk, FetchThrows, HttpOk]
   \<and> fst (checkAndSendExpirationNotifications 0 secondFails no_race demoNow demoDb emptyWorld)
       = Inr ()
   \<and> logCount (snd (checkAndSendExpirationNotifications 0 secondFails no_race demoNow demoDb
                      emptyWorld)) ''A'' ''three_day'' = 1
   \<and> dispatchCount (snd (checkAndSendExpirationNotifications 0 secondFails no_race demoNow
                           demoDb emptyWorld)) ''A'' ''Food Expiring Soon'' = 1
   \<and> logCount (snd (checkAndSendExpirationNotifications 0 secondFails no_race demoNow demoDb
                      emptyWorld)) ''C'' ''expiry_day'' = 1
   \<and> dispatchCount (snd (checkAndSendExpirationNotifications 0 secondFails no_race demoNow
                           demoDb emptyWorld)) ''C'' ''Food Expiring Today!'' = 1"
proof -
  have memA: "(demoToken, itemA) \<in> set (consideredItems 0 demoNow demoDb)"
    by code_simp
  have memC: "(demoToken, itemC) \<in> set (consideredItems 0 demoNow demoDb)"
    by code_simp
  have selA: "selectNotification (daysUntilExpiration 0 (setHours0 0 demoNow) itemA)
                (name_FoodItem itemA)
              = Some (''three_day'', ''Food Expiring Soon'', ''Milk expires in 3 days.'')"
    by code_simp
  have selC: "selectNotification (daysUntilExpiration 0 (setHours0 0 demoNow) itemC)
                (name_FoodItem itemC)
              = Some (''expiry_day'', ''Food Expiring Today!'',
                      ''Ham expires today. Use it before it goes bad!'')"
    by code_simp
  have zA: "logCount emptyWorld (id_FoodItem itemA) ''three_day'' = 0"
    and zC: "logCount emptyWorld (id_FoodItem itemC) ''expiry_day'' = 0"
    and dA: "dispatchCount emptyWorld ''A'' ''Food Expiring Soon'' = 0"
    and dC: "dispatchCount emptyWorld ''C'' ''Food Expiring Today!'' = 0"
    and idA: "id_FoodItem itemA = ''A''" and idC: "id_FoodItem itemC = ''C''"
    by code_simp+
  have out: "map snd (outbox (snd (checkAndSendExpirationNotifications 0 secondFails no_race
                demoNow demoDb emptyWorld))) = [HttpOk, FetchThrows, HttpOk]"
    by code_simp
  note t = dispatch_failure_does_not_abort [of 0 secondFails demoNow demoDb emptyWorld]
  from t have ok: "fst (checkAndSendExpirationNotifications 0 secondFails no_race demoNow demoDb
                     emptyWorld) = Inr ()"
    by blast
  from t memA selA zA
  have rA: "logCount (snd (checkAndSendExpirationNotifications 0 secondFails no_race demoNow
                             demoDb emptyWorld)) (id_FoodItem itemA) ''three_day'' = 1
          \<and> dispatchCount (snd (checkAndSendExpirationNotifications 0 secondFails no_race
                             demoNow demoDb emptyWorld)) (id_FoodItem itemA)
               ''Food Expiring Soon''
              = dispatchCount emptyWorld (id_FoodItem itemA) ''Food Expiring Soon'' + 1"
    by blast
  from t memC selC zC
  have rC: "logCount (snd (checkAndSendExpirationNotifications 0 secondFails no_race demoNow
                             demoDb emptyWorld)) (id_FoodItem itemC) ''expiry_day'' = 1
          \<and> dispatchCount (snd (checkAndSendExpirationNotifications 0 secondFails no_race
                             demoNow demoDb emptyWorld)) (id_FoodItem itemC)
               ''Food Expiring Today!''
              = dispatchCount emptyWorld (id_FoodItem itemC) ''Food Expiring Today!'' + 1"
    by blast
  show ?thesis
    using memA memC out ok rA rC by (simp add: dA dC idA idC)
qed







subsection \<open>Under any interference\<close>

lemma create_outbox: "outbox (snd (notificationLog_create now fid ty w)) = outbox w"
  by (simp add: notificationLog_create_def Let_def)

lemma concurrentRecord_outbox: "outbox (concurrentRecord rc now fid ty w) = outbox w"
  by (simp add: concurrentRecord_def create_outbox)

lemma create_distinct:
  "distinct (map logKey (logs w)) \<Longrightarrow>
     distinct (map logKey (logs (snd (notificationLog_create now fid ty w))))"
  by (auto simp: notificationLog_create_def Let_def logKey_def)

lemma concurrentRecord_distinct:
  "distinct (map logKey (logs w)) \<Longrightarrow>
     distinct (map logKey (logs (concurrentRecord rc now fid ty w)))"
  by (simp add: concurrentRecord_def create_distinct)

lemma send_logs: "logs (snd (sendPushNotification gw n w)) = logs w"
  by (simp add: sendPushNotification_eq)

lemma processItem_any:
  "processItem tz gw rc now today tok item w =
     (case selectNotification (daysUntilExpiration tz today item) (name_FoodItem item) of
        None \<Rightarrow> (Inr (), w)
      | Some (ty, ttl, bdy) \<Rightarrow>
          (case findUnique (logs w) (id_FoodItem item) ty of
             Some r \<Rightarrow> (Inr (), w)
           | None \<Rightarrow>
               (case notificationLog_create now (id_FoodItem item) ty
                       (concurrentRecord rc now (id_FoodItem item) ty
                          (snd (sendPushNotification gw
                             \<lparr>to_ExpoNotification = tok, title = ttl, body = bdy,
                              data_foodItemId = id_FoodItem item\<rparr> w))) of
                  (Inl e, w2) \<Rightarrow> (Inl e, w2)
                | (Inr r, w2) \<Rightarrow> (Inr (), w2))))"
  by (simp add: processItem_def sendPushNotification_eq split: option.splits prod.splits)

lemma processItem_snd:
  "snd (processItem tz gw rc now today tok item w) = w \<or>
   (\<exists>ty ttl bdy.
      selectNotification (daysUntilExpiration tz today item) (name_FoodItem item)
        = Some (ty, ttl, bdy)
      \<and> findUnique (logs w) (id_FoodItem item) ty = None
      \<and> snd (processItem tz gw rc now today tok item w) =
          snd (notificationLog_create now (id_FoodItem item) ty
                 (concurrentRecord rc now (id_FoodItem item) ty
                    (snd (sendPushNotification gw
                       \<lparr>to_ExpoNotification = tok, title = ttl, body = bdy,
                        data_foodItemId = id_FoodItem item\<rparr> w)))))"
  by (auto simp: processItem_any split: option.splits prod.splits sum.splits)

lemma processItem_distinct:
  assumes "distinct (map logKey (logs w))"
  shows "distinct (map logKey (logs (snd (processItem tz gw rc now today tok item w))))"
  using processItem_snd [of tz gw rc now today tok item w] assms
  by (auto simp: send_logs intro!: create_distinct concurrentRecord_distinct)

lemma forPairs_distinct:
  "distinct (map logKey (logs w)) \<Longrightarrow>
     distinct (map logKey (logs (snd (forPairs tz gw rc now today xs w))))"
proof (induction xs arbitrary: w)
  case Nil
  then show ?case by simp
next
  case (Cons p xs)
  obtain tok item where p: "p = (tok, item)" by (cases p)
  obtain r w1 where r: "processItem tz gw rc now today tok item w = (r, w1)"
    by (cases "processItem tz gw rc now today tok item w")
  have d1: "distinct (map logKey (logs w1))"
    using processItem_distinct [OF Cons.prems, of tz gw rc now today tok item] by (simp add: r)
  show ?case
  proof (cases r)
    case (Inl e)
    then show ?thesis using d1 by (simp add: p r)
  next
    case (Inr u)
    then show ?thesis using Cons.IH [OF d1] by (simp add: p r)
  qed
qed

lemma run_distinct:
  "distinct (map logKey (logs w)) \<Longrightarrow>
     distinct (map logKey (logs (snd (checkAndSendExpirationNotifications tz gw rc now db w))))"
  by (simp add: run_forPairs forPairs_distinct)

lemma cron_logs:
  "logs (snd (cronCallback tz gw rc now db w)) =
     logs (snd (checkAndSendExpirationNotifications tz gw rc now db w))"
  by (simp add: cronCallback_def split: prod.splits sum.splits)

subsection \<open>Uniqueness of the logged pairs\<close>

text \<open>
  C3: in every reachable state the pair (foodItemId, type) identifies at most one
  \<open>NotificationLog\<close> row.  The states include those reached by calling the storage
  operation directly, with no existence check before it: it is the unique index that refuses
  the second row.
\<close>

theorem log_pairs_unique:
  assumes "reachable w"
  shows "distinct (map logKey (logs w))
    \<and> logCount w fid ty \<le> 1
    \<and> ((fid, ty) \<in> set (map logKey (logs w)) \<longrightarrow>
         notificationLog_create now fid ty w = (Inl UniqueConstraintViolation, w))"
proof -
  have d: "distinct (map logKey (logs w))"
    using assms
  proof (induction rule: reachable.induct)
    case reachable_init
    show ?case by (simp add: emptyWorld_def)
  next
    case (reachable_create w now fid ty)
    then show ?case by (simp add: create_distinct)
  next
    case (reachable_send w gw notification)
    then show ?case by (simp add: send_logs)
  next
    case (reachable_run w tz gw rc now db)
    then show ?case by (simp add: run_distinct)
  next
    case (reachable_cron w tz gw rc now db)
    then show ?case by (simp add: cron_logs run_distinct)
  qed
  then have "logCount w fid ty \<le> 1"
    by (rule distinct_logCount)
  then show ?thesis
    using d by (simp add: create_present)
qed

theorem log_pairs_unique_witness:
  "reachable (snd (notificationLog_create 5 ''A'' ''one_day''
                     (snd (notificationLog_create 3 ''A'' ''one_day'' emptyWorld))))
   \<and> map logKey (logs (snd (notificationLog_create 5 ''A'' ''one_day''
                              (snd (notificationLog_create 3 ''A'' ''one_day'' emptyWorld)))))
       = [(''A'', ''one_day'')]
   \<and> distinct (map logKey (logs (snd (notificationLog_create 5 ''A'' ''one_day''
                                        (snd (notificationLog_create 3 ''A'' ''one_day''
                                                emptyWorld))))))
   \<and> fst (notificationLog_create 9 ''A'' ''one_day''
            (snd (notificationLog_create 5 ''A'' ''one_day''
                    (snd (notificationLog_create 3 ''A'' ''one_day'' emptyWorld)))))
       = Inl UniqueConstraintViolation"
proof -
  define w0 where "w0 = snd (notificationLog_create 5 ''A'' ''one_day''
                     (snd (notificationLog_create 3 ''A'' ''one_day'' emptyWorld)))"
  have r: "reachable w0"
    unfolding w0_def by (intro reachable_create reachable_init)
  have k: "map logKey (logs w0) = [(''A'', ''one_day'')]"
    unfolding w0_def by code_simp
  then have m: "(''A'', ''one_day'') \<in> set (map logKey (logs w0))"
    by simp
  note t = log_pairs_unique [OF r, of "''A''" "''one_day''" 9]
  show ?thesis
    using t r k m unfolding w0_def [symmetric] by simp
qed

subsection \<open>Exact-day thresholds\<close>

lemma findUnique_other_kind:
  "type_NotificationLog r \<noteq> ty \<Longrightarrow>
     (findUnique (L @ [r]) fid ty = None) = (findUnique L fid ty = None)"
  by (auto simp: findUnique_None_iff logKey_def)

lemma processItem_outbox:
  assumes sel: "selectNotification (daysUntilExpiration tz today item) (name_FoodItem item)
                  = Some (ty, ttl, bdy)"
  shows "outbox (snd (processItem tz gw rc now today tok item w)) =
     (if findUnique (logs w) (id_FoodItem item) ty = None
      then outbox w @ [(\<lparr>to_ExpoNotification = tok, title = ttl, body = bdy,
                         data_foodItemId = id_FoodItem item\<rparr>,
                        gw (length (outbox w))
                          \<lparr>to_ExpoNotification = tok, title = ttl, body = bdy,
                           data_foodItemId = id_FoodItem item\<rparr>)]
      else outbox w)"
proof (cases "findUnique (logs w) (id_FoodItem item) ty")
  case None
  define w1 where "w1 = concurrentRecord rc now (id_FoodItem item) ty
           (snd (sendPushNotification gw
              \<lparr>to_ExpoNotification = tok, title = ttl, body = bdy,
               data_foodItemId = id_FoodItem item\<rparr> w))"
  obtain e w2 where cr: "notificationLog_create now (id_FoodItem item) ty w1 = (e, w2)"
    by (cases "notificationLog_create now (id_FoodItem item) ty w1")
  have "outbox w2 = outbox w1"
    using create_outbox [of now "id_FoodItem item" ty w1] by (simp add: cr)
  moreover have "snd (processItem tz gw rc now today tok item w) = w2"
    by (cases e) (simp_all add: processItem_any sel None w1_def [symmetric] cr)
  ultimately have "outbox (snd (processItem tz gw rc now today tok item w)) =
          outbox (snd (sendPushNotification gw
                         \<lparr>to_ExpoNotification = tok, title = ttl, body = bdy,
                          data_foodItemId = id_FoodItem item\<rparr> w))"
    by (simp add: w1_def concurrentRecord_outbox)
  then show ?thesis
    using None by (simp add: sendPushNotification_eq)
next
  case (Some r)
  then show ?thesis by (simp add: processItem_any sel)
qed

text \<open>
  C4: the loop body attempts a notification only when the day offset is exactly 3, 1 or 0,
  with the kinds \<open>three_day\<close>, \<open>one_day\<close> and \<open>expiry_day\<close>; at any other offset it
  does nothing.  At a matching offset the gateway is called exactly when the log has no row
  for the item and that kind; a row of another kind does not change this.
\<close>

theorem exact_day_thresholds:
  "(selectNotification d nm =
      (if d = 3 then Some (''three_day'', ''Food Expiring Soon'', nm @ '' expires in 3 days.'')
       else if d = 1 then
         Some (''one_day'', ''Food Expiring Tomorrow'',
               nm @ '' expires tomorrow. Plan to use it soon!'')
       else if d = 0 then
         Some (''expiry_day'', ''Food Expiring Today!'',
               nm @ '' expires today. Use it before it goes bad!'')
       else None))
   \<and> (daysUntilExpiration tz today item \<notin> {3, 1, 0} \<longrightarrow>
        processItem tz gw rc now today tok item w = (Inr (), w))
   \<and> (selectNotification (daysUntilExpiration tz today item) (name_FoodItem item)
         = Some (ty, ttl, bdy) \<longrightarrow>
        outbox (snd (processItem tz gw rc now today tok item w)) =
          (if findUnique (logs w) (id_FoodItem item) ty = None
           then outbox w @ [(\<lparr>to_ExpoNotification = tok, title = ttl, body = bdy,
                              data_foodItemId = id_FoodItem item\<rparr>,
                             gw (length (outbox w))
                               \<lparr>to_ExpoNotification = tok, title = ttl, body = bdy,
                                data_foodItemId = id_FoodItem item\<rparr>)]
           else outbox w)
        \<and> (type_NotificationLog r \<noteq> ty \<longrightarrow>
             outbox (snd (processItem tz gw rc now today tok item (w\<lparr>logs := logs w @ [r]\<rparr>)))
               = outbox (snd (processItem tz gw rc now today tok item w))))"
proof -
  have a: "selectNotification d nm =
      (if d = 3 then Some (''three_day'', ''Food Expiring Soon'', nm @ '' expires in 3 days.'')
       else if d = 1 then
         Some (''one_day'', ''Food Expiring Tomorrow'',
               nm @ '' expires tomorrow. Plan to use it soon!'')
       else if d = 0 then
         Some (''expiry_day'', ''Food Expiring Today!'',
               nm @ '' expires today. Use it before it goes bad!'')
       else None)"
    by (simp add: selectNotification_def)
  have b: "processItem tz gw rc now today tok item w = (Inr (), w)"
    if "daysUntilExpiration tz today item \<notin> {3, 1, 0}"
    using that by (simp add: processItem_def selectNotification_def)
  have c: "outbox (snd (processItem tz gw rc now today tok item (w\<lparr>logs := logs w @ [r]\<rparr>)))
               = outbox (snd (processItem tz gw rc now today tok item w))"
    if sel: "selectNotification (daysUntilExpiration tz today item) (name_FoodItem item)
         = Some (ty, ttl, bdy)" and other: "type_NotificationLog r \<noteq> ty"
    using findUnique_other_kind [OF other, of "logs w" "id_FoodItem item"]
    by (simp add: processItem_outbox [OF sel])
  show ?thesis
    using a b c processItem_outbox [of tz today item ty ttl bdy gw rc now tok w] by blast
qed

theorem exact_day_thresholds_witness:
  "daysUntilExpiration 0 (setHours0 0 demoNow) itemD = 2
   \<and> processItem 0 secondFails no_race demoNow (setHours0 0 demoNow) demoToken itemD emptyWorld
       = (Inr (), emptyWorld)
   \<and> daysUntilExpiration 0 (setHours0 0 demoNow) itemB = 1
   \<and> selectNotification 1 ''Eggs''
       = Some (''one_day'', ''Food Expiring Tomorrow'',
               ''Eggs expires tomorrow. Plan to use it soon!'')
   \<and> length (outbox (snd (processItem 0 secondFails no_race demoNow (setHours0 0 demoNow)
                            demoToken itemB
                            (emptyWorld\<lparr>logs := logs emptyWorld @
                               [\<lparr>id_NotificationLog = 0, foodItemId = ''B'',
                                 type_NotificationLog = ''three_day'', sentAt = 0\<rparr>]\<rparr>)))) = 1"
proof -
  have dD: "daysUntilExpiration 0 (setHours0 0 demoNow) itemD = 2"
    and dB: "daysUntilExpiration 0 (setHours0 0 demoNow) itemB = 1"
    by code_simp+
  have notin: "daysUntilExpiration 0 (setHours0 0 demoNow) itemD \<notin> {3, 1, 0}"
    by (simp add: dD)
  have sel: "selectNotification (daysUntilExpiration 0 (setHours0 0 demoNow) itemB)
               (name_FoodItem itemB)
     = Some (''one_day'', ''Food Expiring Tomorrow'',
             ''Eggs expires tomorrow. Plan to use it soon!'')"
    by code_simp
  have other: "type_NotificationLog \<lparr>id_NotificationLog = 0, foodItemId = ''B'',
                 type_NotificationLog = ''three_day'', sentAt = 0\<rparr> \<noteq> ''one_day''"
    by simp
  have fresh: "findUnique (logs emptyWorld) (id_FoodItem itemB) ''one_day'' = None"
    by code_simp
  have e: "outbox emptyWorld = []"
    by (simp add: emptyWorld_def)
  note t1 = exact_day_thresholds [of 1 "''Eggs''" 0 "setHours0 0 demoNow" itemD secondFails
      no_race demoNow demoToken emptyWorld]
  note t2 = exact_day_thresholds [of 1 "''Eggs''" 0 "setHours0 0 demoNow" itemB secondFails
      no_race demoNow demoToken emptyWorld "''one_day''" "''Food Expiring Tomorrow''"
      "''Eggs expires tomorrow. Plan to use it soon!''"
      "\<lparr>id_NotificationLog = 0, foodItemId = ''B'',
        type_NotificationLog = ''three_day'', sentAt = 0\<rparr>"]
  from t1 notin
  have a: "processItem 0 secondFails no_race demoNow (setHours0 0 demoNow) demoToken itemD
             emptyWorld = (Inr (), emptyWorld)"
    by blast
  from t2 have b: "selectNotification 1 ''Eggs''
       = Some (''one_day'', ''Food Expiring Tomorrow'',
               ''Eggs expires tomorrow. Plan to use it soon!'')"
    by simp
  from t2 sel other fresh
  have c: "length (outbox (snd (processItem 0 secondFails no_race demoNow (setHours0 0 demoNow)
                            demoToken itemB
                            (emptyWorld\<lparr>logs := logs emptyWorld @
                               [\<lparr>id_NotificationLog = 0, foodItemId = ''B'',
                                 type_NotificationLog = ''three_day'', sentAt = 0\<rparr>]\<rparr>)))) = 1"
    by (simp add: e)
  show ?thesis
    using dD a dB b c by blast
qed

subsection \<open>Which items a run considers\<close>







subsection \<open>A lost race on the record step\<close>




end
